theory Spec2Isabelle
  imports Main "HOL-Library.Word" "HOL-Library.Multiset"
begin

section \<open>JavaScript strings\<close>

text \<open>
  A JavaScript string is a sequence of 16-bit code units. The sources use characters
  outside Latin-1 (the dash of the HTTP error text is U+2014) and regular expressions
  whose \<^verbatim>\<open>\s\<close> class reaches beyond ASCII, so a code unit is a 16-bit word.
  \<open>lit\<close> embeds an ASCII literal of the source.
\<close>

type_synonym jschar = "16 word"
type_synonym jsstring = "jschar list"

definition lit :: "string \<Rightarrow> jsstring" where
  "lit s = map (\<lambda>c. of_char c) s"

text \<open>
  The characters matched by \<^verbatim>\<open>\s\<close> and removed by \<^verbatim>\<open>String.prototype.trim\<close>:
  ECMAScript's WhiteSpace (TAB, VT, FF, SP, NBSP, ZWNBSP and the category Zs) and
  LineTerminator (LF, CR, LS, PS).
\<close>

definition isWhiteSpace :: "jschar \<Rightarrow> bool" where
  "isWhiteSpace c \<longleftrightarrow>
     c = 0x09 \<or> c = 0x0A \<or> c = 0x0B \<or> c = 0x0C \<or> c = 0x0D \<or> c = 0x20 \<or>
     c = 0xA0 \<or> c = 0x1680 \<or> (0x2000 \<le> c \<and> c \<le> 0x200A) \<or>
     c = 0x2028 \<or> c = 0x2029 \<or> c = 0x202F \<or> c = 0x205F \<or> c = 0x3000 \<or>
     c = 0xFEFF"

text \<open>\<^verbatim>\<open>s.trim()\<close>\<close>

definition trim :: "jsstring \<Rightarrow> jsstring" where
  "trim s = rev (dropWhile isWhiteSpace (rev (dropWhile isWhiteSpace s)))"

text \<open>\<^verbatim>\<open>s.replace(/\/+$/, "")\<close>: the one match of the pattern is the maximal run of
  slashes that ends the string.\<close>

definition stripTrailingSlashes :: "jsstring \<Rightarrow> jsstring" where
  "stripTrailingSlashes s = rev (dropWhile (\<lambda>c. c = 0x2F) (rev s))"

text \<open>
  \<^verbatim>\<open>s.toLowerCase()\<close>, on the letters A to Z. The Unicode mappings of the other code
  points are left out: none of them yields a string that ends in one of the characters
  of \<^verbatim>\<open>"/api"\<close> (U+0130 becomes \<^verbatim>\<open>i\<close> followed by U+0307), and the source only asks
  whether the lowered string ends with \<^verbatim>\<open>"/api"\<close>.
\<close>

definition toLowerChar :: "jschar \<Rightarrow> jschar" where
  "toLowerChar c = (if 0x41 \<le> c \<and> c \<le> 0x5A then c + 0x20 else c)"

definition toLowerCase :: "jsstring \<Rightarrow> jsstring" where
  "toLowerCase s = map toLowerChar s"

text \<open>\<^verbatim>\<open>s.endsWith(suffix)\<close>\<close>

definition endsWith :: "jsstring \<Rightarrow> jsstring \<Rightarrow> bool" where
  "endsWith s suffix \<longleftrightarrow>
     length suffix \<le> length s \<and> drop (length s - length suffix) s = suffix"

text \<open>\<^verbatim>\<open>s.slice(0, -n)\<close>: the end index is \<open>max (length s - n) 0\<close>.\<close>

definition sliceDropLast :: "nat \<Rightarrow> jsstring \<Rightarrow> jsstring" where
  "sliceDropLast n s = take (length s - n) s"

section \<open>The HTTP client: base URL\<close>

text \<open>
  \<^verbatim>\<open>normalizeBaseUrl(url)\<close> of \<^verbatim>\<open>services/api.js\<close>. The argument is
  \<^verbatim>\<open>process.env.REACT_APP_BACKEND_URL\<close>: a string, or \<^verbatim>\<open>undefined\<close> (\<open>None\<close>).
  \<^verbatim>\<open>!url\<close> holds for \<^verbatim>\<open>undefined\<close> and for the empty string.
\<close>

definition normalizeBaseUrl :: "jsstring option \<Rightarrow> jsstring" where
  "normalizeBaseUrl url =
     (case url of
        None \<Rightarrow> lit ''/api''
      | Some s \<Rightarrow>
          if s = [] then lit ''/api''
          else
            let u = stripTrailingSlashes (trim s);
                u' = (if endsWith (toLowerCase u) (lit ''/api'') then sliceDropLast 4 u else u)
            in if u' = [] then lit ''/api'' else u')"

section \<open>The HTTP client: error construction\<close>

text \<open>
  The values \<^verbatim>\<open>res.json()\<close> can resolve with. The conversions of a JavaScript number
  (to a boolean, to a string) are those of the runtime's floating point numbers; they
  are parameters of the model: \<open>nz n\<close> says that \<open>n\<close> is neither zero nor NaN,
  \<open>shown n\<close> is \<^verbatim>\<open>String(n)\<close>. An object is the list of its members, in the order of
  the JSON text.
\<close>

datatype 'n json =
    JNull
  | JBool bool
  | JNum 'n
  | JStr jsstring
  | JArr "'n json list"
  | JObj "(jsstring \<times> 'n json) list"

text \<open>Exceptions: a thrown value, or the value a rejected promise carries.\<close>

datatype exn = TypeError | SyntaxError | Error jsstring

text \<open>The response object: its status line and what its two body readers settle with.\<close>

record 'n response =
  res_status :: nat
  res_statusText :: jsstring
  res_json :: "exn + 'n json"
  res_text :: "exn + jsstring"

text \<open>ToBoolean.\<close>

fun truthy :: "('n \<Rightarrow> bool) \<Rightarrow> 'n json \<Rightarrow> bool" where
  "truthy nz JNull = False"
| "truthy nz (JBool b) = b"
| "truthy nz (JNum n) = nz n"
| "truthy nz (JStr s) = (s \<noteq> [])"
| "truthy nz (JArr xs) = True"
| "truthy nz (JObj kvs) = True"

text \<open>
  \<^verbatim>\<open>data?.key\<close> for a key that no prototype defines (\<^verbatim>\<open>detail\<close>, \<^verbatim>\<open>message\<close>,
  \<^verbatim>\<open>error\<close>): the own property of an object, \<^verbatim>\<open>undefined\<close> (\<open>None\<close>) otherwise.
  Where the JSON text repeats a key, the parsed object keeps the last member.
\<close>

fun getField :: "'n json \<Rightarrow> jsstring \<Rightarrow> 'n json option" where
  "getField (JObj kvs) k = map_of (rev kvs) k"
| "getField _ k = None"

text \<open>\<^verbatim>\<open>a || b\<close> on values that may be \<^verbatim>\<open>undefined\<close>.\<close>

definition truthyOpt :: "('n \<Rightarrow> bool) \<Rightarrow> 'n json option \<Rightarrow> bool" where
  "truthyOpt nz v = (case v of None \<Rightarrow> False | Some j \<Rightarrow> truthy nz j)"

definition js_or :: "('n \<Rightarrow> bool) \<Rightarrow> 'n json option \<Rightarrow> 'n json option \<Rightarrow> 'n json option" where
  "js_or nz a b = (if truthyOpt nz a then a else b)"

text \<open>
  \<^verbatim>\<open>Array.prototype.join\<close> with the separator \<^verbatim>\<open>","\<close>, on the converted elements:
  the first conversion that throws, from the left, ends the join.
\<close>

fun joinComma :: "(exn + jsstring) list \<Rightarrow> exn + jsstring" where
  "joinComma [] = Inr []"
| "joinComma [r] = r"
| "joinComma (r # rs) =
     (case r of
        Inl e \<Rightarrow> Inl e
      | Inr s \<Rightarrow> (case joinComma rs of Inl e \<Rightarrow> Inl e | Inr t \<Rightarrow> Inr (s @ lit '','' @ t)))"

text \<open>
  ToString, as a template literal applies it to a substitution. An array is joined,
  \<^verbatim>\<open>null\<close> elements giving the empty string. An object is converted by its
  \<^verbatim>\<open>toString\<close> method: the inherited one answers \<^verbatim>\<open>"[object Object]"\<close>; an own
  property of that name hides it and, coming from JSON, is not callable, and
  \<^verbatim>\<open>valueOf\<close> (own or inherited) yields no primitive, so the conversion throws a
  TypeError.
\<close>

fun toStringJS :: "('n \<Rightarrow> jsstring) \<Rightarrow> 'n json \<Rightarrow> exn + jsstring" where
  "toStringJS shown JNull = Inr (lit ''null'')"
| "toStringJS shown (JBool b) = Inr (if b then lit ''true'' else lit ''false'')"
| "toStringJS shown (JNum n) = Inr (shown n)"
| "toStringJS shown (JStr s) = Inr s"
| "toStringJS shown (JArr xs) =
     joinComma (map (\<lambda>x. case x of JNull \<Rightarrow> Inr [] | _ \<Rightarrow> toStringJS shown x) xs)"
| "toStringJS shown (JObj kvs) =
     (if lit ''toString'' \<in> set (map fst kvs) then Inl TypeError
      else Inr (lit ''[object Object]''))"

text \<open>The decimal digits of a non-negative integer (\<^verbatim>\<open>String(n)\<close> below \<open>10^21\<close>).\<close>

fun decimal :: "nat \<Rightarrow> jsstring" where
  "decimal n =
     (if n < 10 then [of_nat (48 + n)]
      else decimal (n div 10) @ [of_nat (48 + n mod 10)])"

declare decimal.simps [simp del]

text \<open>\<^verbatim>\<open>s.replace(/\s+/g, " ")\<close>: every maximal run of white space becomes one space.\<close>

function collapseWhitespace :: "jsstring \<Rightarrow> jsstring" where
  "collapseWhitespace [] = []"
| "collapseWhitespace (c # cs) =
     (if isWhiteSpace c then 0x20 # collapseWhitespace (dropWhile isWhiteSpace cs)
      else c # collapseWhitespace cs)"
  by pat_completeness auto
termination
  by (relation "measure length") (auto simp: length_dropWhile_le less_Suc_eq_le)

text \<open>\<^verbatim>\<open>tryParseJson(res)\<close>: \<^verbatim>\<open>null\<close> when \<^verbatim>\<open>res.json()\<close> rejects.\<close>

definition tryParseJson :: "'n response \<Rightarrow> 'n json" where
  "tryParseJson res = (case res_json res of Inl e \<Rightarrow> JNull | Inr d \<Rightarrow> d)"

text \<open>
  \<^verbatim>\<open>buildHttpError(res, defaultMsg)\<close>. \<open>Inr\<close> is the error object the function
  returns, \<open>Inl\<close> an exception that leaves it. \<open>textFallback\<close> is the second
  \<^verbatim>\<open>try\<close>/\<^verbatim>\<open>catch\<close> statement; the dash of its text is U+2014.
\<close>

definition textFallback :: "'n response \<Rightarrow> jsstring \<Rightarrow> exn" where
  "textFallback res defaultMsg =
     (case res_text res of
        Inr text \<Rightarrow>
          (let snippet = take 160 (collapseWhitespace text)
           in Error (defaultMsg @ lit '': HTTP '' @ decimal (res_status res) @ lit '' '' @
                res_statusText res @ [0x20, 0x2014, 0x20] @ snippet))
      | Inl e \<Rightarrow>
          Error (defaultMsg @ lit '': HTTP '' @ decimal (res_status res) @ lit '' '' @
            res_statusText res))"

definition buildHttpError ::
  "('n \<Rightarrow> bool) \<Rightarrow> ('n \<Rightarrow> jsstring) \<Rightarrow> 'n response \<Rightarrow> jsstring \<Rightarrow> exn + exn" where
  "buildHttpError nz shown res defaultMsg =
     (let data = tryParseJson res;
          detail =
            (if truthy nz data
             then js_or nz (js_or nz (getField data (lit ''detail''))
                                     (getField data (lit ''message'')))
                           (getField data (lit ''error''))
             else None)
      in case detail of
           None \<Rightarrow> Inr (textFallback res defaultMsg)
         | Some d \<Rightarrow>
             if truthy nz d
             then (case toStringJS shown d of
                     Inl e \<Rightarrow> Inl e
                   | Inr t \<Rightarrow> Inr (Error (defaultMsg @ lit '': '' @ t)))
             else Inr (textFallback res defaultMsg))"

section \<open>The view state controller\<close>

text \<open>
  The data of \<^verbatim>\<open>App.js\<close>, typed by the backend's contract: a patient is
  \<^verbatim>\<open>{ id, name }\<close> (the \<^verbatim>\<open>id\<close> may be missing), a message is
  \<^verbatim>\<open>{ id, role, agent, content, ts }\<close>. \<open>None\<close> is \<^verbatim>\<open>null\<close> or \<^verbatim>\<open>undefined\<close>.
\<close>

record patient =
  p_id :: "jsstring option"
  p_name :: jsstring

record message =
  m_id :: jsstring
  m_role :: jsstring
  m_agent :: jsstring
  m_content :: jsstring
  m_ts :: jsstring

text \<open>What \<^verbatim>\<open>fetchPatientHistory\<close> and \<^verbatim>\<open>sendChatMessage\<close> resolve with.\<close>

record history =
  h_messages :: "message list option"

record chat_response =
  r_user :: "message option"
  r_agent1 :: "message option"
  r_agent2 :: "message option"
  r_threadId :: "jsstring option"

text \<open>The state variables of the \<^verbatim>\<open>App\<close> component, one field for each \<^verbatim>\<open>useState\<close>.\<close>

record view_state =
  theme :: jsstring
  patients :: "patient list"
  activePatient :: "patient option"
  messages :: "message list"
  userInput :: jsstring
  loading :: bool
  savingPatient :: bool
  error :: jsstring

definition initial_state :: view_state where
  "initial_state =
     \<lparr>theme = lit ''light'', patients = [], activePatient = None, messages = [],
      userInput = [], loading = False, savingPatient = False, error = []\<rparr>"

text \<open>The calls of the HTTP client a handler can issue.\<close>

datatype request =
    FetchPatients
  | FetchPatientHistory jsstring
  | CreateOrUpdatePatient jsstring
  | SendChatMessage "jsstring option" jsstring

text \<open>
  An asynchronous handler is modelled in two steps: the part that runs up to its
  \<^verbatim>\<open>await\<close>, which returns the new state and the request it issues (if any), and the
  part that resumes when the request settles, on the state of that moment; \<open>Inl\<close> is a
  rejection. Between the two, other handlers may run.

  A handler is a closure of one render. What it reads of the state variables
  (\<^verbatim>\<open>canSend\<close>, \<^verbatim>\<open>userInput\<close>, \<^verbatim>\<open>activePatient\<close>) is what that render saw; what
  it writes with the setters is applied to the current state, which differs from the
  render's when an update has been queued and the component has not rendered again.
\<close>

text \<open>The initial load of the patients (the effect with no dependencies).\<close>

definition loadPatients_start :: "view_state \<Rightarrow> view_state \<times> request option" where
  "loadPatients_start s = (s, Some FetchPatients)"

definition loadPatients_done :: "exn + patient list option \<Rightarrow> view_state \<Rightarrow> view_state" where
  "loadPatients_done outcome s =
     (case outcome of
        Inr data \<Rightarrow>
          (let ps = (case data of None \<Rightarrow> [] | Some d \<Rightarrow> d);
               s1 = s\<lparr>patients := ps\<rparr>
           in case ps of [] \<Rightarrow> s1 | p # _ \<Rightarrow> s1\<lparr>activePatient := Some p\<rparr>)
      | Inl e \<Rightarrow> s\<lparr>error := lit ''Unable to load patients.''\<rparr>)"

text \<open>The effect that depends on \<^verbatim>\<open>activePatient\<close>: it runs after each render in which
  the active patient has changed.\<close>

definition historyEffect_start :: "view_state \<Rightarrow> view_state \<times> request option" where
  "historyEffect_start s =
     (case activePatient s of
        None \<Rightarrow> (s\<lparr>messages := []\<rparr>, None)
      | Some p \<Rightarrow>
          (case p_id p of
             None \<Rightarrow> (s\<lparr>messages := []\<rparr>, None)
           | Some i \<Rightarrow>
               if i = [] then (s\<lparr>messages := []\<rparr>, None)
               else (s, Some (FetchPatientHistory i))))"

definition historyEffect_done :: "exn + history option \<Rightarrow> view_state \<Rightarrow> view_state" where
  "historyEffect_done outcome s =
     (case outcome of
        Inr h \<Rightarrow>
          s\<lparr>messages :=
              (case h of
                 None \<Rightarrow> []
               | Some h' \<Rightarrow> (case h_messages h' of None \<Rightarrow> [] | Some ms \<Rightarrow> ms))\<rparr>
      | Inl e \<Rightarrow> s\<lparr>error := lit ''Unable to load chat history.''\<rparr>)"

text \<open>\<^verbatim>\<open>canSend\<close>\<close>

definition canSend :: "view_state \<Rightarrow> bool" where
  "canSend s \<longleftrightarrow> length (trim (userInput s)) > 0 \<and> activePatient s \<noteq> None \<and> \<not> loading s"

text \<open>\<^verbatim>\<open>handleSelectPatient(p)\<close>\<close>

definition handleSelectPatient :: "patient \<Rightarrow> view_state \<Rightarrow> view_state" where
  "handleSelectPatient p s = s\<lparr>activePatient := Some p, error := []\<rparr>"

text \<open>What \<^verbatim>\<open>MainChat\<close> renders in its message list:
  \<^verbatim>\<open>patient && messages.map(...)\<close>.\<close>

definition renderedMessages :: "view_state \<Rightarrow> message list" where
  "renderedMessages s = (case activePatient s of None \<Rightarrow> [] | Some p \<Rightarrow> messages s)"

text \<open>
  \<^verbatim>\<open>handleSend\<close>. \<open>now\<close> is what \<^verbatim>\<open>Date.now()\<close> returns and \<open>stamp\<close> what
  \<^verbatim>\<open>new Date().toISOString()\<close> returns where the handler reads the clock.
\<close>

definition userMsg :: "nat \<Rightarrow> jsstring \<Rightarrow> view_state \<Rightarrow> message" where
  "userMsg now stamp s =
     \<lparr>m_id = lit ''user-'' @ decimal now, m_role = lit ''user'', m_agent = lit ''user'',
      m_content = trim (userInput s), m_ts = stamp\<rparr>"

definition agent1Fallback :: "nat \<Rightarrow> jsstring \<Rightarrow> message" where
  "agent1Fallback now stamp =
     \<lparr>m_id = lit ''agent1-'' @ decimal now, m_role = lit ''assistant'',
      m_agent = lit ''agent1'',
      m_content =
        lit ''I'm Agent 1. I will ask you health-related questions to record symptoms.'',
      m_ts = stamp\<rparr>"

definition agent2Fallback :: "nat \<Rightarrow> jsstring \<Rightarrow> message" where
  "agent2Fallback now stamp =
     \<lparr>m_id = lit ''agent2-'' @ decimal now, m_role = lit ''assistant'',
      m_agent = lit ''agent2'',
      m_content =
        lit ''I'm Agent 2. Based on symptoms, I will recommend appropriate medicine.'',
      m_ts = stamp\<rparr>"

text \<open>
  Up to the \<^verbatim>\<open>await\<close>: \<open>seen\<close> is the state of the render whose handler runs,
  \<open>s\<close> the current state. The guard, the content of the user message and the
  patient id are read from \<open>seen\<close>; \<^verbatim>\<open>setMessages\<close> appends to the current messages.
  The read of \<^verbatim>\<open>activePatient.id\<close> is inside the \<^verbatim>\<open>try\<close>: were there no active
  patient, the TypeError would be caught there.
\<close>

definition handleSend_start ::
  "nat \<Rightarrow> jsstring \<Rightarrow> view_state \<Rightarrow> view_state \<Rightarrow> view_state \<times> request option" where
  "handleSend_start now stamp seen s =
     (if \<not> canSend seen then (s, None)
      else
        let m = userMsg now stamp seen;
            s1 = s\<lparr>loading := True, error := [], messages := messages s @ [m],
                   userInput := []\<rparr>
        in case activePatient seen of
             Some p \<Rightarrow> (s1, Some (SendChatMessage (p_id p) (m_content m)))
           | None \<Rightarrow>
               (s1\<lparr>error := lit ''Unable to send message. Please try again.'',
                    loading := False\<rparr>, None))"

text \<open>
  From the \<^verbatim>\<open>await\<close> on: the rest of the \<^verbatim>\<open>try\<close> block, the \<^verbatim>\<open>catch\<close> and the
  \<^verbatim>\<open>finally\<close>. The clock is read once for each fallback message.
\<close>

definition handleSend_done ::
  "nat \<Rightarrow> jsstring \<Rightarrow> nat \<Rightarrow> jsstring \<Rightarrow> exn + chat_response option \<Rightarrow> view_state \<Rightarrow> view_state" where
  "handleSend_done now1 stamp1 now2 stamp2 outcome s =
     (let s1 =
        (case outcome of
           Inr resp \<Rightarrow>
             (let agent1Msg =
                    (case (case resp of None \<Rightarrow> None | Some r \<Rightarrow> r_agent1 r) of
                       Some m \<Rightarrow> m
                     | None \<Rightarrow> agent1Fallback now1 stamp1);
                  agent2Msg =
                    (case (case resp of None \<Rightarrow> None | Some r \<Rightarrow> r_agent2 r) of
                       Some m \<Rightarrow> m
                     | None \<Rightarrow> agent2Fallback now2 stamp2)
              in s\<lparr>messages := messages s @ [agent1Msg, agent2Msg]\<rparr>)
         | Inl e \<Rightarrow> s\<lparr>error := lit ''Unable to send message. Please try again.''\<rparr>)
      in s1\<lparr>loading := False\<rparr>)"

text \<open>
  The body of the chat response as it arrives: its members in the order of the JSON
  text. \<^verbatim>\<open>res.json()\<close> turns it into the object the handler reads by key; a later
  member with the same key replaces an earlier one.
\<close>

datatype payload_member =
    UserMember "message option"
  | Agent1Member "message option"
  | Agent2Member "message option"
  | ThreadIdMember "jsstring option"

fun memberKey :: "payload_member \<Rightarrow> jsstring" where
  "memberKey (UserMember v) = lit ''user''"
| "memberKey (Agent1Member v) = lit ''agent1''"
| "memberKey (Agent2Member v) = lit ''agent2''"
| "memberKey (ThreadIdMember v) = lit ''threadId''"

fun setMember :: "payload_member \<Rightarrow> chat_response \<Rightarrow> chat_response" where
  "setMember (UserMember v) r = r\<lparr>r_user := v\<rparr>"
| "setMember (Agent1Member v) r = r\<lparr>r_agent1 := v\<rparr>"
| "setMember (Agent2Member v) r = r\<lparr>r_agent2 := v\<rparr>"
| "setMember (ThreadIdMember v) r = r\<lparr>r_threadId := v\<rparr>"

definition parsePayload :: "payload_member list \<Rightarrow> chat_response" where
  "parsePayload ms =
     fold setMember ms \<lparr>r_user = None, r_agent1 = None, r_agent2 = None, r_threadId = None\<rparr>"

section \<open>Sample values\<close>

text \<open>Two patients, a conversation with the first, and replies of the two agents.\<close>

definition patientJane :: patient where
  "patientJane = \<lparr>p_id = Some (lit ''p1''), p_name = lit ''Jane''\<rparr>"

definition patientOmar :: patient where
  "patientOmar = \<lparr>p_id = Some (lit ''p2''), p_name = lit ''Omar''\<rparr>"

definition janeMessage :: message where
  "janeMessage =
     \<lparr>m_id = lit ''m1'', m_role = lit ''assistant'', m_agent = lit ''agent1'',
      m_content = lit ''How long have you had the cough?'',
      m_ts = lit ''2024-01-01T00:00:00.000Z''\<rparr>"

definition janeChat :: view_state where
  "janeChat =
     initial_state\<lparr>patients := [patientJane, patientOmar],
       activePatient := Some patientJane, messages := [janeMessage]\<rparr>"

definition helloState :: view_state where
  "helloState = janeChat\<lparr>userInput := lit ''Hello''\<rparr>"

definition agent1Reply :: message where
  "agent1Reply =
     \<lparr>m_id = lit ''m2'', m_role = lit ''assistant'', m_agent = lit ''agent1'',
      m_content = lit ''Do you have a fever?'', m_ts = lit ''2024-01-01T00:00:01.000Z''\<rparr>"

definition agent2Reply :: message where
  "agent2Reply =
     \<lparr>m_id = lit ''m3'', m_role = lit ''assistant'', m_agent = lit ''agent2'',
      m_content = lit ''Rest and drink water.'', m_ts = lit ''2024-01-01T00:00:02.000Z''\<rparr>"

section \<open>Properties of the string operations\<close>

lemma dropWhile_all: "\<forall>c\<in>set s. P c \<Longrightarrow> dropWhile P s = []"
  by (induction s) auto

lemma trim_Nil_iff: "trim s = [] \<longleftrightarrow> (\<forall>c\<in>set s. isWhiteSpace c)"
proof
  assume "trim s = []"
  then have a: "\<forall>c\<in>set (dropWhile isWhiteSpace s). isWhiteSpace c"
    by (simp add: trim_def)
  have "dropWhile isWhiteSpace s = []"
  proof (cases "dropWhile isWhiteSpace s")
    case Nil then show ?thesis .
  next
    case (Cons x xs)
    then have "\<not> isWhiteSpace x" by (metis hd_dropWhile list.sel(1) list.distinct(1))
    with a Cons show ?thesis by simp
  qed
  then show "\<forall>c\<in>set s. isWhiteSpace c" by simp
next
  assume "\<forall>c\<in>set s. isWhiteSpace c"
  then show "trim s = []" by (simp add: trim_def dropWhile_all)
qed

lemma dropWhile_replicate_append: "P x \<Longrightarrow> dropWhile P (replicate k x @ ys) = dropWhile P ys"
  by (induction k) simp_all

lemma stripTrailingSlashes_replicate:
  "stripTrailingSlashes (xs @ replicate k 0x2F) = stripTrailingSlashes xs"
  by (simp add: stripTrailingSlashes_def dropWhile_replicate_append)

lemma stripTrailingSlashes_id:
  "xs = [] \<or> last xs \<noteq> 0x2F \<Longrightarrow> stripTrailingSlashes xs = xs"
  by (cases xs rule: rev_cases) (auto simp: stripTrailingSlashes_def)

lemma stripTrailingSlashes_slashes:
  "xs = [] \<or> last xs \<noteq> 0x2F \<Longrightarrow> stripTrailingSlashes (xs @ replicate k 0x2F) = xs"
  by (simp only: stripTrailingSlashes_replicate stripTrailingSlashes_id)

lemma endsWith_append: "endsWith (xs @ suf) suf"
  by (simp add: endsWith_def)

lemma sliceDropLast_append: "length suf = n \<Longrightarrow> sliceDropLast n (b @ suf) = b"
  by (simp add: sliceDropLast_def)

lemma toLowerCase_append: "toLowerCase (xs @ ys) = toLowerCase xs @ toLowerCase ys"
  by (simp add: toLowerCase_def)

lemma lowered_api:
  assumes "toLowerCase suf = lit ''/api''"
  shows "length suf = 4" and "suf \<noteq> []" and "last suf \<noteq> 0x2F"
proof -
  from assms have "length (toLowerCase suf) = length (lit ''/api'')" by simp
  then have len: "length suf = 4" by (simp add: toLowerCase_def lit_def)
  show "length suf = 4" by (rule len)
  from len show "suf \<noteq> []" by auto
  from len obtain a b c d where suf: "suf = [a, b, c, d]"
    by (auto simp: length_Suc_conv numeral_eq_Suc)
  with assms have "toLowerChar d = 0x69" by (simp add: toLowerCase_def lit_def)
  then have "d \<noteq> 0x2F" by (auto simp: toLowerChar_def)
  with suf show "last suf \<noteq> 0x2F" by simp
qed

lemma lit_api_nonempty: "lit ''/api'' \<noteq> []"
  by (simp add: lit_def)

lemma toLowerCase_lit_api: "toLowerCase (lit ''/api'') = lit ''/api''"
  by (simp add: toLowerCase_def toLowerChar_def lit_def)

text \<open>
  The two shapes of a trimmed value: a base followed by a suffix that lowers to
  \<^verbatim>\<open>"/api"\<close> and by slashes, and a base that has no such suffix, followed by slashes.
\<close>

lemma normalizeBaseUrl_strips:
  assumes suf: "toLowerCase suf = lit ''/api''"
    and t: "trim s = b @ suf @ replicate k 0x2F"
  shows "normalizeBaseUrl (Some s) = (if b = [] then lit ''/api'' else b)"
proof -
  from t lowered_api(2) [OF suf] have "trim s \<noteq> []" by simp
  then have ne: "s \<noteq> []" by (auto simp: trim_Nil_iff)
  have "stripTrailingSlashes ((b @ suf) @ replicate k 0x2F) = b @ suf"
    by (rule stripTrailingSlashes_slashes) (use lowered_api [OF suf] in simp)
  then have u: "stripTrailingSlashes (trim s) = b @ suf" by (simp add: t)
  have e: "endsWith (toLowerCase (b @ suf)) (lit ''/api'')"
    by (simp add: toLowerCase_append suf endsWith_append)
  have d: "sliceDropLast 4 (b @ suf) = b"
    by (rule sliceDropLast_append) (rule lowered_api(1) [OF suf])
  show ?thesis
    by (simp add: normalizeBaseUrl_def ne u e d Let_def)
qed

lemma normalizeBaseUrl_keeps:
  assumes t: "trim s = b @ replicate k 0x2F"
    and b: "b = [] \<or> last b \<noteq> 0x2F"
    and n: "\<not> endsWith (toLowerCase b) (lit ''/api'')"
  shows "normalizeBaseUrl (Some s) = (if b = [] then lit ''/api'' else b)"
proof -
  have u: "stripTrailingSlashes (trim s) = b"
    unfolding t by (rule stripTrailingSlashes_slashes) (rule b)
  from t have "s = [] \<Longrightarrow> b = []" by (simp add: trim_def)
  then show ?thesis
    by (cases "s = []") (simp_all add: normalizeBaseUrl_def u n Let_def)
qed

lemma normalizeBaseUrl_nonempty: "normalizeBaseUrl x \<noteq> []"
  by (cases x) (simp_all add: normalizeBaseUrl_def lit_api_nonempty Let_def)

section \<open>Properties of the base URL\<close>

text \<open>
  C3. Without a backend URL in the environment the base is \<^verbatim>\<open>"/api"\<close>. With one,
  the trailing slashes of its trimmed form are removed and then one \<^verbatim>\<open>"/api"\<close>
  suffix: a value \<open>b\<close> followed by \<^verbatim>\<open>"/api"\<close> and any number of slashes resolves to
  \<open>b\<close> (also when \<open>b\<close> itself ends in \<^verbatim>\<open>"/api"\<close>: the suffix goes once), and a
  value \<open>b\<close> with no such suffix followed by slashes resolves to \<open>b\<close>. The value
  \<^verbatim>\<open>"https://host:3001/api/"\<close> resolves to \<^verbatim>\<open>"https://host:3001"\<close>.
\<close>

theorem normalizeBaseUrl_resolution:
  "normalizeBaseUrl None = lit ''/api'' \<and>
   (\<forall>s b k. b \<noteq> [] \<and> trim s = b @ lit ''/api'' @ replicate k 0x2F \<longrightarrow>
      normalizeBaseUrl (Some s) = b) \<and>
   (\<forall>s b k. b \<noteq> [] \<and> last b \<noteq> 0x2F \<and> \<not> endsWith (toLowerCase b) (lit ''/api'') \<and>
      trim s = b @ replicate k 0x2F \<longrightarrow> normalizeBaseUrl (Some s) = b) \<and>
   normalizeBaseUrl (Some (lit ''https://host:3001/api/'')) = lit ''https://host:3001''"
proof (intro conjI allI impI)
  show "normalizeBaseUrl None = lit ''/api''"
    by (simp add: normalizeBaseUrl_def)
next
  fix s b :: jsstring and k :: nat
  assume "b \<noteq> [] \<and> trim s = b @ lit ''/api'' @ replicate k 0x2F"
  then show "normalizeBaseUrl (Some s) = b"
    using normalizeBaseUrl_strips [OF toLowerCase_lit_api, of s b k] by simp
next
  fix s b :: jsstring and k :: nat
  assume "b \<noteq> [] \<and> last b \<noteq> 0x2F \<and> \<not> endsWith (toLowerCase b) (lit ''/api'') \<and>
      trim s = b @ replicate k 0x2F"
  then show "normalizeBaseUrl (Some s) = b"
    using normalizeBaseUrl_keeps [of s b k] by simp
next
  show "normalizeBaseUrl (Some (lit ''https://host:3001/api/'')) = lit ''https://host:3001''"
    by (simp add: normalizeBaseUrl_def lit_def trim_def isWhiteSpace_def
        stripTrailingSlashes_def toLowerCase_def toLowerChar_def endsWith_def
        sliceDropLast_def Let_def)
qed

theorem normalizeBaseUrl_resolution_witness:
  "normalizeBaseUrl (Some (lit ''http://localhost:8000/api/api//'')) = lit ''http://localhost:8000/api'' \<and>
   normalizeBaseUrl (Some (lit ''http://localhost:8000//'')) = lit ''http://localhost:8000''"
proof
  have h: "lit ''http://localhost:8000/api'' \<noteq> [] \<and>
      trim (lit ''http://localhost:8000/api/api//'') =
      lit ''http://localhost:8000/api'' @ lit ''/api'' @ replicate 2 0x2F"
    by code_simp
  note strip = normalizeBaseUrl_resolution [THEN conjunct2, THEN conjunct1, rule_format]
  show "normalizeBaseUrl (Some (lit ''http://localhost:8000/api/api//'')) = lit ''http://localhost:8000/api''"
    by (rule strip [of _ _ 2]) (rule h)
next
  have h: "lit ''http://localhost:8000'' \<noteq> [] \<and> last (lit ''http://localhost:8000'') \<noteq> 0x2F \<and>
    \<not> endsWith (toLowerCase (lit ''http://localhost:8000'')) (lit ''/api'') \<and>
    trim (lit ''http://localhost:8000//'') = lit ''http://localhost:8000'' @ replicate 2 0x2F"
    by code_simp
  note keep = normalizeBaseUrl_resolution [THEN conjunct2, THEN conjunct2, THEN conjunct1, rule_format]
  show "normalizeBaseUrl (Some (lit ''http://localhost:8000//'')) = lit ''http://localhost:8000''"
    by (rule keep [of _ _ 2]) (rule h)
qed

text \<open>
  C10. \<^verbatim>\<open>normalizeBaseUrl\<close> never returns the empty string. A value whose trimmed form
  is nothing but slashes, or nothing but one \<^verbatim>\<open>"/api"\<close> in any capitalisation followed
  by slashes, resolves to \<^verbatim>\<open>"/api"\<close>, as \<^verbatim>\<open>"/api"\<close>, \<^verbatim>\<open>"/api/"\<close> and
  \<^verbatim>\<open>"/API"\<close> do. The suffix test ignores case: after a non-empty base \<open>b\<close>, a suffix
  in any capitalisation is removed, as in \<^verbatim>\<open>"https://host/API"\<close>.
\<close>

theorem normalizeBaseUrl_never_empty:
  "(\<forall>x. normalizeBaseUrl x \<noteq> []) \<and>
   (\<forall>s suf k. toLowerCase suf = lit ''/api'' \<and> trim s = suf @ replicate k 0x2F \<longrightarrow>
      normalizeBaseUrl (Some s) = lit ''/api'') \<and>
   (\<forall>s k. trim s = replicate k 0x2F \<longrightarrow> normalizeBaseUrl (Some s) = lit ''/api'') \<and>
   normalizeBaseUrl (Some (lit ''/api'')) = lit ''/api'' \<and>
   normalizeBaseUrl (Some (lit ''/api/'')) = lit ''/api'' \<and>
   normalizeBaseUrl (Some (lit ''/API'')) = lit ''/api'' \<and>
   (\<forall>s b suf k. b \<noteq> [] \<and> toLowerCase suf = lit ''/api'' \<and>
      trim s = b @ suf @ replicate k 0x2F \<longrightarrow> normalizeBaseUrl (Some s) = b) \<and>
   normalizeBaseUrl (Some (lit ''https://host/API'')) = lit ''https://host''"
proof (intro conjI allI impI)
  fix x show "normalizeBaseUrl x \<noteq> []" by (rule normalizeBaseUrl_nonempty)
next
  fix s suf :: jsstring and k :: nat
  assume "toLowerCase suf = lit ''/api'' \<and> trim s = suf @ replicate k 0x2F"
  then show "normalizeBaseUrl (Some s) = lit ''/api''"
    using normalizeBaseUrl_strips [of suf s "[]" k] by simp
next
  fix s :: jsstring and k :: nat
  assume "trim s = replicate k 0x2F"
  then show "normalizeBaseUrl (Some s) = lit ''/api''"
    using normalizeBaseUrl_keeps [of s "[]" k] by (simp add: endsWith_def lit_def toLowerCase_def)
next
  fix s b suf :: jsstring and k :: nat
  assume "b \<noteq> [] \<and> toLowerCase suf = lit ''/api'' \<and> trim s = b @ suf @ replicate k 0x2F"
  then show "normalizeBaseUrl (Some s) = b"
    using normalizeBaseUrl_strips [of suf s b k] by simp
qed (simp_all add: normalizeBaseUrl_def lit_def trim_def isWhiteSpace_def
        stripTrailingSlashes_def toLowerCase_def toLowerChar_def endsWith_def
        sliceDropLast_def Let_def)

theorem normalizeBaseUrl_never_empty_witness:
  "normalizeBaseUrl (Some (lit '' /Api// '')) = lit ''/api'' \<and>
   normalizeBaseUrl (Some (lit ''///'')) = lit ''/api'' \<and>
   normalizeBaseUrl (Some (lit ''http://h/aPi/'')) = lit ''http://h''"
proof (intro conjI)
  have h: "toLowerCase (lit ''/Api'') = lit ''/api'' \<and>
      trim (lit '' /Api// '') = lit ''/Api'' @ replicate 2 0x2F"
    by code_simp
  note r = normalizeBaseUrl_never_empty [THEN conjunct2, THEN conjunct1, rule_format]
  show "normalizeBaseUrl (Some (lit '' /Api// '')) = lit ''/api''"
    by (rule r [of "lit ''/Api''" _ 2]) (rule h)
next
  have t: "trim (lit ''///'') = replicate 3 0x2F"
    by code_simp
  note r = normalizeBaseUrl_never_empty [THEN conjunct2, THEN conjunct2, THEN conjunct1, rule_format]
  show "normalizeBaseUrl (Some (lit ''///'')) = lit ''/api''"
    by (rule r [of _ 3]) (rule t)
next
  have h: "lit ''http://h'' \<noteq> [] \<and> toLowerCase (lit ''/aPi'') = lit ''/api'' \<and>
      trim (lit ''http://h/aPi/'') = lit ''http://h'' @ lit ''/aPi'' @ replicate 1 0x2F"
    by code_simp
  note r = normalizeBaseUrl_never_empty [THEN conjunct2, THEN conjunct2, THEN conjunct2,
      THEN conjunct2, THEN conjunct2, THEN conjunct2, THEN conjunct1, rule_format]
  show "normalizeBaseUrl (Some (lit ''http://h/aPi/'')) = lit ''http://h''"
    by (rule r [of _ "lit ''/aPi''" _ 1]) (rule h)
qed

section \<open>Properties of the error construction\<close>

text \<open>
  The snippet of the text fallback: after \<open>collapseWhitespace\<close> the only white space
  left is the space, and no two white space characters are adjacent.
\<close>

lemma collapseWhitespace_spaces:
  "c \<in> set (collapseWhitespace t) \<Longrightarrow> isWhiteSpace c \<Longrightarrow> c = 0x20"
proof (induction t arbitrary: c rule: collapseWhitespace.induct)
  case 1
  then show ?case by simp
next
  case (2 d ds)
  then show ?case by (auto split: if_splits)
qed

lemma collapseWhitespace_hd:
  "collapseWhitespace t = x # xs \<Longrightarrow> isWhiteSpace x \<Longrightarrow> t \<noteq> [] \<and> isWhiteSpace (hd t)"
  by (cases t) (auto split: if_splits)

lemma collapseWhitespace_no_run:
  "collapseWhitespace t = pre @ x # y # post \<Longrightarrow> \<not> (isWhiteSpace x \<and> isWhiteSpace y)"
proof (induction t arbitrary: pre rule: collapseWhitespace.induct)
  case 1
  then show ?case by simp
next
  case (2 d ds)
  show ?case
  proof (cases "isWhiteSpace d")
    case True
    with "2.prems" have eq: "0x20 # collapseWhitespace (dropWhile isWhiteSpace ds) = pre @ x # y # post"
      by simp
    show ?thesis
    proof (cases pre)
      case Nil
      with eq have "collapseWhitespace (dropWhile isWhiteSpace ds) = y # post" by simp
      then have "isWhiteSpace y \<Longrightarrow> dropWhile isWhiteSpace ds \<noteq> [] \<and>
          isWhiteSpace (hd (dropWhile isWhiteSpace ds))"
        by (rule collapseWhitespace_hd)
      then have "\<not> isWhiteSpace y" using hd_dropWhile [of isWhiteSpace ds] by blast
      then show ?thesis by simp
    next
      case (Cons p ps)
      with eq have "collapseWhitespace (dropWhile isWhiteSpace ds) = ps @ x # y # post" by simp
      with "2.IH"(1) [OF True] show ?thesis .
    qed
  next
    case False
    with "2.prems" have eq: "d # collapseWhitespace ds = pre @ x # y # post" by simp
    show ?thesis
    proof (cases pre)
      case Nil
      with eq False show ?thesis by simp
    next
      case (Cons p ps)
      with eq have "collapseWhitespace ds = ps @ x # y # post" by simp
      with "2.IH"(2) [OF False] show ?thesis .
    qed
  qed
qed

lemma textFallback_text:
  "res_text res = Inr t \<Longrightarrow>
   textFallback res defaultMsg =
     Error (defaultMsg @ lit '': HTTP '' @ decimal (res_status res) @ lit '' '' @
       res_statusText res @ [0x20, 0x2014, 0x20] @ take 160 (collapseWhitespace t))"
  by (simp add: textFallback_def)

lemma textFallback_rejected:
  "res_text res = Inl e \<Longrightarrow>
   textFallback res defaultMsg =
     Error (defaultMsg @ lit '': HTTP '' @ decimal (res_status res) @ lit '' '' @
       res_statusText res)"
  by (simp add: textFallback_def)

lemma buildHttpError_field:
  assumes "res_json res = Inr (JObj kvs)"
    and "js_or nz (js_or nz (getField (JObj kvs) (lit ''detail''))
            (getField (JObj kvs) (lit ''message''))) (getField (JObj kvs) (lit ''error'')) = Some d"
    and "truthy nz d"
  shows "buildHttpError nz shown res defaultMsg =
     (case toStringJS shown d of
        Inl e \<Rightarrow> Inl e
      | Inr t \<Rightarrow> Inr (Error (defaultMsg @ lit '': '' @ t)))"
  using assms by (simp add: buildHttpError_def tryParseJson_def Let_def)

lemma buildHttpError_detail_string:
  assumes "res_json res = Inr (JObj kvs)"
    and "map_of (rev kvs) (lit ''detail'') = Some (JStr v)" and "v \<noteq> []"
  shows "buildHttpError nz shown res defaultMsg = Inr (Error (defaultMsg @ lit '': '' @ v))"
  using assms by (simp add: buildHttpError_def tryParseJson_def Let_def js_or_def truthyOpt_def)

lemma buildHttpError_unparsed:
  "res_json res = Inl e \<Longrightarrow>
   buildHttpError nz shown res defaultMsg = Inr (textFallback res defaultMsg)"
  by (simp add: buildHttpError_def tryParseJson_def Let_def)

lemma buildHttpError_no_field:
  assumes "res_json res = Inr (JObj kvs)"
    and "\<not> truthyOpt nz (map_of (rev kvs) (lit ''detail''))"
    and "\<not> truthyOpt nz (map_of (rev kvs) (lit ''message''))"
    and "\<not> truthyOpt nz (map_of (rev kvs) (lit ''error''))"
  shows "buildHttpError nz shown res defaultMsg = Inr (textFallback res defaultMsg)"
  using assms
  by (simp add: buildHttpError_def tryParseJson_def Let_def js_or_def truthyOpt_def
      split: option.splits)

lemma buildHttpError_throws_iff:
  "(\<exists>e. buildHttpError nz shown res defaultMsg = Inl e) \<longleftrightarrow>
   (\<exists>kvs d e. res_json res = Inr (JObj kvs) \<and>
      js_or nz (js_or nz (getField (JObj kvs) (lit ''detail''))
            (getField (JObj kvs) (lit ''message''))) (getField (JObj kvs) (lit ''error'')) = Some d \<and>
      truthy nz d \<and> toStringJS shown d = Inl e)"
proof
  assume "\<exists>e. buildHttpError nz shown res defaultMsg = Inl e"
  then obtain e where e: "buildHttpError nz shown res defaultMsg = Inl e" ..
  show "\<exists>kvs d e. res_json res = Inr (JObj kvs) \<and>
      js_or nz (js_or nz (getField (JObj kvs) (lit ''detail''))
            (getField (JObj kvs) (lit ''message''))) (getField (JObj kvs) (lit ''error'')) = Some d \<and>
      truthy nz d \<and> toStringJS shown d = Inl e"
  proof (cases "res_json res")
    case (Inl x)
    with e show ?thesis by (simp add: buildHttpError_unparsed)
  next
    case (Inr data)
    show ?thesis
    proof (cases data)
      case (JObj kvs)
      with Inr e show ?thesis
        by (auto simp: buildHttpError_def tryParseJson_def Let_def
            split: option.splits if_splits sum.splits)
    qed (use Inr e in \<open>auto simp: buildHttpError_def tryParseJson_def Let_def js_or_def
            truthyOpt_def split: option.splits if_splits sum.splits\<close>)
  qed
next
  assume "\<exists>kvs d e. res_json res = Inr (JObj kvs) \<and>
      js_or nz (js_or nz (getField (JObj kvs) (lit ''detail''))
            (getField (JObj kvs) (lit ''message''))) (getField (JObj kvs) (lit ''error'')) = Some d \<and>
      truthy nz d \<and> toStringJS shown d = Inl e"
  then show "\<exists>e. buildHttpError nz shown res defaultMsg = Inl e"
    by (auto simp: buildHttpError_field)
qed

text \<open>
  C2. The claim holds that no non-2xx response makes the construction throw. A response
  whose JSON body is \<^verbatim>\<open>{"detail": {"toString": 1}}\<close> does: the template literal
  of the first tier converts the field value to a string outside every \<^verbatim>\<open>try\<close>,
  and that conversion throws a TypeError for an object with an own \<^verbatim>\<open>toString\<close>
  member. \<^verbatim>\<open>buildHttpError\<close> then ends with that exception and returns no error
  object.
\<close>

theorem buildHttpError_throws:
  "buildHttpError (\<lambda>n::int. n \<noteq> 0) (\<lambda>n. decimal (nat n))
     \<lparr>res_status = 500, res_statusText = lit ''Internal Server Error'',
      res_json = Inr (JObj [(lit ''detail'', JObj [(lit ''toString'', JNum 1)])]),
      res_text = Inl TypeError\<rparr>
     (lit ''Failed to fetch patients'') = Inl TypeError"
  by code_simp

section \<open>Properties of the view state controller\<close>

text \<open>
  C4. \<^verbatim>\<open>canSend\<close> holds exactly when the trimmed input is not empty, there is an
  active patient and no send is in flight. The trimmed input is empty exactly when the
  input is empty or consists of white space only, so \<^verbatim>\<open>canSend\<close> fails exactly
  when the input is empty or white space only, or no patient is active, or a send is in
  flight.
\<close>

theorem canSend_iff:
  "(canSend s \<longleftrightarrow> trim (userInput s) \<noteq> [] \<and> activePatient s \<noteq> None \<and> \<not> loading s) \<and>
   (trim (userInput s) = [] \<longleftrightarrow> userInput s = [] \<or> (\<forall>c\<in>set (userInput s). isWhiteSpace c)) \<and>
   (\<not> canSend s \<longleftrightarrow>
      (userInput s = [] \<or> (\<forall>c\<in>set (userInput s). isWhiteSpace c)) \<or>
      activePatient s = None \<or> loading s)"
  by (auto simp: canSend_def trim_Nil_iff)

theorem canSend_iff_witness:
  "canSend helloState \<and> \<not> canSend (helloState\<lparr>userInput := lit ''   ''\<rparr>) \<and>
   \<not> canSend (helloState\<lparr>loading := True\<rparr>) \<and>
   \<not> canSend (helloState\<lparr>activePatient := None\<rparr>)"
proof (intro conjI)
  have "trim (userInput helloState) \<noteq> [] \<and> activePatient helloState \<noteq> None \<and>
      \<not> loading helloState"
    by code_simp
  then show "canSend helloState"
    by (rule canSend_iff [THEN conjunct1, THEN iffD2])
next
  have "\<forall>c\<in>set (userInput (helloState\<lparr>userInput := lit ''   ''\<rparr>)). isWhiteSpace c"
    by code_simp
  then show "\<not> canSend (helloState\<lparr>userInput := lit ''   ''\<rparr>)"
    using canSend_iff [of "helloState\<lparr>userInput := lit ''   ''\<rparr>"] by blast
next
  show "\<not> canSend (helloState\<lparr>loading := True\<rparr>)"
    using canSend_iff [of "helloState\<lparr>loading := True\<rparr>"] by simp
next
  show "\<not> canSend (helloState\<lparr>activePatient := None\<rparr>)"
    using canSend_iff [of "helloState\<lparr>activePatient := None\<rparr>"] by simp
qed




text \<open>The response object does not depend on the order of the members of the payload.\<close>

lemma memberKey_distinct:
  "lit ''user'' \<noteq> lit ''agent1''" "lit ''user'' \<noteq> lit ''agent2''"
  "lit ''user'' \<noteq> lit ''threadId''" "lit ''agent1'' \<noteq> lit ''agent2''"
  "lit ''agent1'' \<noteq> lit ''threadId''" "lit ''agent2'' \<noteq> lit ''threadId''"
  by (simp_all add: lit_def)

lemma setMember_commute:
  "memberKey a \<noteq> memberKey b \<Longrightarrow> setMember a (setMember b r) = setMember b (setMember a r)"
  by (cases a; cases b) (simp_all add: memberKey_distinct)

lemma parsePayload_permuted:
  assumes d: "distinct (map memberKey ms)" and p: "mset ms = mset ms'"
  shows "parsePayload ms = parsePayload ms'"
proof -
  have "fold setMember ms = fold setMember ms'"
  proof (rule fold_multiset_equiv [OF _ p])
    fix x y assume x: "x \<in> set ms" and y: "y \<in> set ms"
    show "setMember x \<circ> setMember y = setMember y \<circ> setMember x"
    proof (cases "x = y")
      case True then show ?thesis by simp
    next
      case False
      from d have "inj_on memberKey (set ms)" by (simp add: distinct_map)
      with x y False have "memberKey x \<noteq> memberKey y" by (auto dest: inj_onD)
      then show ?thesis by (auto simp: fun_eq_iff setMember_commute)
    qed
  qed
  then show ?thesis by (simp add: parsePayload_def)
qed

lemma fold_setMember_agent1_other:
  "lit ''agent1'' \<notin> memberKey ` set ms \<Longrightarrow> r_agent1 (fold setMember ms r) = r_agent1 r"
proof (induction ms arbitrary: r)
  case Nil show ?case by simp
next
  case (Cons m ms) then show ?case by (cases m) simp_all
qed

lemma fold_setMember_agent2_other:
  "lit ''agent2'' \<notin> memberKey ` set ms \<Longrightarrow> r_agent2 (fold setMember ms r) = r_agent2 r"
proof (induction ms arbitrary: r)
  case Nil show ?case by simp
next
  case (Cons m ms) then show ?case by (cases m) simp_all
qed

lemma fold_setMember_agent1:
  "distinct (map memberKey ms) \<Longrightarrow> Agent1Member v \<in> set ms \<Longrightarrow>
   r_agent1 (fold setMember ms r) = v"
proof (induction ms arbitrary: r)
  case Nil then show ?case by simp
next
  case (Cons m ms)
  show ?case
  proof (cases "m = Agent1Member v")
    case True
    with Cons.prems have "lit ''agent1'' \<notin> memberKey ` set ms" by simp
    with True show ?thesis by (simp add: fold_setMember_agent1_other)
  next
    case False
    with Cons show ?thesis by simp
  qed
qed

lemma fold_setMember_agent2:
  "distinct (map memberKey ms) \<Longrightarrow> Agent2Member v \<in> set ms \<Longrightarrow>
   r_agent2 (fold setMember ms r) = v"
proof (induction ms arbitrary: r)
  case Nil then show ?case by simp
next
  case (Cons m ms)
  show ?case
  proof (cases "m = Agent2Member v")
    case True
    with Cons.prems have "lit ''agent2'' \<notin> memberKey ` set ms" by simp
    with True show ?thesis by (simp add: fold_setMember_agent2_other)
  next
    case False
    with Cons show ?thesis by simp
  qed
qed

lemma handleSend_done_messages:
  "messages (handleSend_done n1 t1 n2 t2 (Inr resp) s) =
     messages s @
       [case (case resp of None \<Rightarrow> None | Some r \<Rightarrow> r_agent1 r) of
          Some m \<Rightarrow> m | None \<Rightarrow> agent1Fallback n1 t1,
        case (case resp of None \<Rightarrow> None | Some r \<Rightarrow> r_agent2 r) of
          Some m \<Rightarrow> m | None \<Rightarrow> agent2Fallback n2 t2]"
  by (simp add: handleSend_done_def Let_def)

lemma handleSend_start_canSend:
  "canSend seen \<Longrightarrow> \<exists>p. activePatient seen = Some p \<and>
     handleSend_start now stamp seen s =
       (s\<lparr>loading := True, error := [], messages := messages s @ [userMsg now stamp seen],
          userInput := []\<rparr>,
        Some (SendChatMessage (p_id p) (trim (userInput seen))))"
  by (auto simp: handleSend_start_def canSend_def Let_def userMsg_def split: option.splits)

text \<open>
  C5. A send from a render with \<^verbatim>\<open>canSend\<close> appends the user message (agent
  \<^verbatim>\<open>"user"\<close>, content the trimmed input of that render) to the current messages and
  issues the request for that content. When the request resolves,
  exactly two messages are appended to the messages of that moment: first the
  \<^verbatim>\<open>agent1\<close> message of the response (or its fallback), then the \<^verbatim>\<open>agent2\<close>
  message (or its fallback). For a payload that holds both messages, each key once, the
  \<^verbatim>\<open>agent1\<close> message comes first wherever the two members stand, and reordering the
  members of the payload changes nothing.
\<close>

theorem handleSend_appends:
  "(canSend seen \<longrightarrow>
      (\<exists>p. activePatient seen = Some p \<and>
         handleSend_start now stamp seen s =
           (s\<lparr>loading := True, error := [],
              messages := messages s @ [userMsg now stamp seen], userInput := []\<rparr>,
            Some (SendChatMessage (p_id p) (trim (userInput seen)))))) \<and>
   m_agent (userMsg now stamp seen) = lit ''user'' \<and>
   m_content (userMsg now stamp seen) = trim (userInput seen) \<and>
   messages (handleSend_done n1 t1 n2 t2 (Inr resp) s') =
     messages s' @
       [case (case resp of None \<Rightarrow> None | Some r \<Rightarrow> r_agent1 r) of
          Some m \<Rightarrow> m | None \<Rightarrow> agent1Fallback n1 t1,
        case (case resp of None \<Rightarrow> None | Some r \<Rightarrow> r_agent2 r) of
          Some m \<Rightarrow> m | None \<Rightarrow> agent2Fallback n2 t2] \<and>
   (\<forall>ms m1 m2. distinct (map memberKey ms) \<and> Agent1Member (Some m1) \<in> set ms \<and>
        Agent2Member (Some m2) \<in> set ms \<longrightarrow>
      messages (handleSend_done n1 t1 n2 t2 (Inr (Some (parsePayload ms))) s') =
        messages s' @ [m1, m2]) \<and>
   (\<forall>ms ms'. distinct (map memberKey ms) \<and> mset ms = mset ms' \<longrightarrow>
      handleSend_done n1 t1 n2 t2 (Inr (Some (parsePayload ms))) s' =
      handleSend_done n1 t1 n2 t2 (Inr (Some (parsePayload ms'))) s')"
proof (intro conjI allI impI)
  assume "canSend seen"
  then show "\<exists>p. activePatient seen = Some p \<and>
         handleSend_start now stamp seen s =
           (s\<lparr>loading := True, error := [],
              messages := messages s @ [userMsg now stamp seen], userInput := []\<rparr>,
            Some (SendChatMessage (p_id p) (trim (userInput seen))))"
    by (rule handleSend_start_canSend)
next
  show "m_agent (userMsg now stamp seen) = lit ''user''" by (simp add: userMsg_def)
next
  show "m_content (userMsg now stamp seen) = trim (userInput seen)" by (simp add: userMsg_def)
next
  show "messages (handleSend_done n1 t1 n2 t2 (Inr resp) s') =
     messages s' @
       [case (case resp of None \<Rightarrow> None | Some r \<Rightarrow> r_agent1 r) of
          Some m \<Rightarrow> m | None \<Rightarrow> agent1Fallback n1 t1,
        case (case resp of None \<Rightarrow> None | Some r \<Rightarrow> r_agent2 r) of
          Some m \<Rightarrow> m | None \<Rightarrow> agent2Fallback n2 t2]"
    by (rule handleSend_done_messages)
next
  fix ms m1 m2
  assume a: "distinct (map memberKey ms) \<and> Agent1Member (Some m1) \<in> set ms \<and>
        Agent2Member (Some m2) \<in> set ms"
  then have "r_agent1 (parsePayload ms) = Some m1" "r_agent2 (parsePayload ms) = Some m2"
    by (simp_all add: parsePayload_def fold_setMember_agent1 fold_setMember_agent2)
  then show "messages (handleSend_done n1 t1 n2 t2 (Inr (Some (parsePayload ms))) s') =
        messages s' @ [m1, m2]"
    by (simp add: handleSend_done_messages)
next
  fix ms ms'
  assume "distinct (map memberKey ms) \<and> mset ms = mset ms'"
  then have "parsePayload ms = parsePayload ms'" by (simp add: parsePayload_permuted)
  then show "handleSend_done n1 t1 n2 t2 (Inr (Some (parsePayload ms))) s' =
      handleSend_done n1 t1 n2 t2 (Inr (Some (parsePayload ms'))) s'"
    by simp
qed

theorem handleSend_appends_witness:
  "messages (fst (handleSend_start 1700000000000 (lit ''2023-11-14T22:13:20.000Z'') helloState helloState)) =
     [janeMessage, userMsg 1700000000000 (lit ''2023-11-14T22:13:20.000Z'') helloState] \<and>
   messages (handleSend_done 1 [] 2 []
       (Inr (Some (parsePayload
          [Agent2Member (Some agent2Reply), ThreadIdMember None, Agent1Member (Some agent1Reply)])))
       janeChat) = [janeMessage, agent1Reply, agent2Reply] \<and>
   handleSend_done 1 [] 2 []
       (Inr (Some (parsePayload [Agent2Member (Some agent2Reply), Agent1Member (Some agent1Reply)])))
       janeChat =
   handleSend_done 1 [] 2 []
       (Inr (Some (parsePayload [Agent1Member (Some agent1Reply), Agent2Member (Some agent2Reply)])))
       janeChat"
proof (intro conjI)
  have c: "canSend helloState" by code_simp
  have m: "messages helloState = [janeMessage]"
    by (simp add: helloState_def janeChat_def)
  from handleSend_appends [where seen = helloState and s = helloState and now = 1700000000000
      and stamp = "lit ''2023-11-14T22:13:20.000Z''", THEN conjunct1, rule_format, OF c]
  obtain p :: patient where "handleSend_start 1700000000000 (lit ''2023-11-14T22:13:20.000Z'') helloState helloState =
     (helloState\<lparr>loading := True, error := [],
        messages := messages helloState @
          [userMsg 1700000000000 (lit ''2023-11-14T22:13:20.000Z'') helloState],
        userInput := []\<rparr>,
      Some (SendChatMessage (p_id p) (trim (userInput helloState))))"
    by blast
  then show "messages (fst (handleSend_start 1700000000000 (lit ''2023-11-14T22:13:20.000Z'') helloState helloState)) =
     [janeMessage, userMsg 1700000000000 (lit ''2023-11-14T22:13:20.000Z'') helloState]"
    by (simp add: m)
next
  have h: "distinct (map memberKey
        [Agent2Member (Some agent2Reply), ThreadIdMember None, Agent1Member (Some agent1Reply)]) \<and>
      Agent1Member (Some agent1Reply) \<in>
        set [Agent2Member (Some agent2Reply), ThreadIdMember None, Agent1Member (Some agent1Reply)] \<and>
      Agent2Member (Some agent2Reply) \<in>
        set [Agent2Member (Some agent2Reply), ThreadIdMember None, Agent1Member (Some agent1Reply)]"
    by (simp add: lit_def)
  have m: "messages janeChat = [janeMessage]" by (simp add: janeChat_def)
  from handleSend_appends [where s' = janeChat and ?n1.0 = 1 and ?t1.0 = "[]" and ?n2.0 = 2
      and ?t2.0 = "[]", THEN conjunct2, THEN conjunct2, THEN conjunct2, THEN conjunct2,
      THEN conjunct1, rule_format, OF h]
  show "messages (handleSend_done 1 [] 2 []
       (Inr (Some (parsePayload
          [Agent2Member (Some agent2Reply), ThreadIdMember None, Agent1Member (Some agent1Reply)])))
       janeChat) = [janeMessage, agent1Reply, agent2Reply]"
    by (simp add: m)
next
  have h: "distinct (map memberKey [Agent2Member (Some agent2Reply), Agent1Member (Some agent1Reply)]) \<and>
      mset [Agent2Member (Some agent2Reply), Agent1Member (Some agent1Reply)] =
      mset [Agent1Member (Some agent1Reply), Agent2Member (Some agent2Reply)]"
    by (simp add: lit_def)
  from handleSend_appends [where s' = janeChat and ?n1.0 = 1 and ?t1.0 = "[]" and ?n2.0 = 2
      and ?t2.0 = "[]", THEN conjunct2, THEN conjunct2, THEN conjunct2, THEN conjunct2,
      THEN conjunct2, rule_format, OF h]
  show "handleSend_done 1 [] 2 []
       (Inr (Some (parsePayload [Agent2Member (Some agent2Reply), Agent1Member (Some agent1Reply)])))
       janeChat =
   handleSend_done 1 [] 2 []
       (Inr (Some (parsePayload [Agent1Member (Some agent1Reply), Agent2Member (Some agent2Reply)])))
       janeChat" .
qed

text \<open>
  C6. When the response is the empty object, the two fallback messages are appended,
  that of agent 1 first, each with the agent's own default content; after a send that
  started, they follow the user message. When only one agent's message is missing, only
  that one is replaced by its fallback.
\<close>

theorem handleSend_fallbacks:
  "parsePayload [] = \<lparr>r_user = None, r_agent1 = None, r_agent2 = None, r_threadId = None\<rparr> \<and>
   messages (handleSend_done n1 t1 n2 t2 (Inr (Some (parsePayload []))) s) =
     messages s @ [agent1Fallback n1 t1, agent2Fallback n2 t2] \<and>
   (r_agent1 r = None \<and> r_agent2 r = None \<longrightarrow>
      messages (handleSend_done n1 t1 n2 t2 (Inr (Some r)) s) =
        messages s @ [agent1Fallback n1 t1, agent2Fallback n2 t2]) \<and>
   (r_agent1 r = None \<and> r_agent2 r = Some m2 \<longrightarrow>
      messages (handleSend_done n1 t1 n2 t2 (Inr (Some r)) s) =
        messages s @ [agent1Fallback n1 t1, m2]) \<and>
   (r_agent1 r = Some m1 \<and> r_agent2 r = None \<longrightarrow>
      messages (handleSend_done n1 t1 n2 t2 (Inr (Some r)) s) =
        messages s @ [m1, agent2Fallback n2 t2]) \<and>
   (canSend seen \<longrightarrow>
      messages (handleSend_done n1 t1 n2 t2 (Inr (Some (parsePayload [])))
          (fst (handleSend_start now stamp seen s0))) =
        messages s0 @ [userMsg now stamp seen, agent1Fallback n1 t1, agent2Fallback n2 t2]) \<and>
   m_agent (agent1Fallback n1 t1) = lit ''agent1'' \<and>
   m_agent (agent2Fallback n2 t2) = lit ''agent2'' \<and>
   m_content (agent1Fallback n1 t1) =
     lit ''I'm Agent 1. I will ask you health-related questions to record symptoms.'' \<and>
   m_content (agent2Fallback n2 t2) =
     lit ''I'm Agent 2. Based on symptoms, I will recommend appropriate medicine.''"
proof (intro conjI impI)
  show e: "parsePayload [] = \<lparr>r_user = None, r_agent1 = None, r_agent2 = None, r_threadId = None\<rparr>"
    by (simp add: parsePayload_def)
  show "messages (handleSend_done n1 t1 n2 t2 (Inr (Some (parsePayload []))) s) =
     messages s @ [agent1Fallback n1 t1, agent2Fallback n2 t2]"
    by (simp add: handleSend_done_messages e)
  show "m_agent (agent1Fallback n1 t1) = lit ''agent1''" by (simp add: agent1Fallback_def)
  show "m_agent (agent2Fallback n2 t2) = lit ''agent2''" by (simp add: agent2Fallback_def)
  show "m_content (agent1Fallback n1 t1) =
     lit ''I'm Agent 1. I will ask you health-related questions to record symptoms.''"
    by (simp add: agent1Fallback_def)
  show "m_content (agent2Fallback n2 t2) =
     lit ''I'm Agent 2. Based on symptoms, I will recommend appropriate medicine.''"
    by (simp add: agent2Fallback_def)
  {
    assume c: "canSend seen"
    from handleSend_start_canSend [OF c, of now stamp s0]
    have m: "messages (fst (handleSend_start now stamp seen s0)) = messages s0 @ [userMsg now stamp seen]"
      by auto
    show "messages (handleSend_done n1 t1 n2 t2 (Inr (Some (parsePayload [])))
          (fst (handleSend_start now stamp seen s0))) =
        messages s0 @ [userMsg now stamp seen, agent1Fallback n1 t1, agent2Fallback n2 t2]"
      by (simp add: handleSend_done_messages e m)
  }
next
  assume "r_agent1 r = None \<and> r_agent2 r = None"
  then show "messages (handleSend_done n1 t1 n2 t2 (Inr (Some r)) s) =
        messages s @ [agent1Fallback n1 t1, agent2Fallback n2 t2]"
    by (simp add: handleSend_done_messages)
next
  assume "r_agent1 r = None \<and> r_agent2 r = Some m2"
  then show "messages (handleSend_done n1 t1 n2 t2 (Inr (Some r)) s) =
        messages s @ [agent1Fallback n1 t1, m2]"
    by (simp add: handleSend_done_messages)
next
  assume "r_agent1 r = Some m1 \<and> r_agent2 r = None"
  then show "messages (handleSend_done n1 t1 n2 t2 (Inr (Some r)) s) =
        messages s @ [m1, agent2Fallback n2 t2]"
    by (simp add: handleSend_done_messages)
qed

theorem handleSend_fallbacks_witness:
  "messages (handleSend_done 1700000000500 (lit ''a'') 1700000000501 (lit ''b'')
      (Inr (Some (parsePayload [])))
      (fst (handleSend_start 1700000000000 (lit ''2023-11-14T22:13:20.000Z'') helloState helloState))) =
     [janeMessage, userMsg 1700000000000 (lit ''2023-11-14T22:13:20.000Z'') helloState,
      agent1Fallback 1700000000500 (lit ''a''), agent2Fallback 1700000000501 (lit ''b'')] \<and>
   messages (handleSend_done 1700000000500 (lit ''a'') 1700000000501 (lit ''b'')
      (Inr (Some \<lparr>r_user = None, r_agent1 = None, r_agent2 = Some agent2Reply, r_threadId = None\<rparr>))
      janeChat) =
     [janeMessage, agent1Fallback 1700000000500 (lit ''a''), agent2Reply] \<and>
   messages (handleSend_done 1700000000500 (lit ''a'') 1700000000501 (lit ''b'')
      (Inr (Some \<lparr>r_user = None, r_agent1 = Some agent1Reply, r_agent2 = None, r_threadId = None\<rparr>))
      janeChat) =
     [janeMessage, agent1Reply, agent2Fallback 1700000000501 (lit ''b'')]"
proof (intro conjI)
  have c: "canSend helloState" by code_simp
  have m: "messages helloState = [janeMessage]"
    by (simp add: helloState_def janeChat_def)
  from handleSend_fallbacks [where seen = helloState and ?s0.0 = helloState and now = 1700000000000
      and stamp = "lit ''2023-11-14T22:13:20.000Z''" and ?n1.0 = 1700000000500
      and ?t1.0 = "lit ''a''" and ?n2.0 = 1700000000501 and ?t2.0 = "lit ''b''",
      THEN conjunct2, THEN conjunct2, THEN conjunct2, THEN conjunct2, THEN conjunct2,
      THEN conjunct1, rule_format, OF c]
  show "messages (handleSend_done 1700000000500 (lit ''a'') 1700000000501 (lit ''b'')
      (Inr (Some (parsePayload [])))
      (fst (handleSend_start 1700000000000 (lit ''2023-11-14T22:13:20.000Z'') helloState helloState))) =
     [janeMessage, userMsg 1700000000000 (lit ''2023-11-14T22:13:20.000Z'') helloState,
      agent1Fallback 1700000000500 (lit ''a''), agent2Fallback 1700000000501 (lit ''b'')]"
    by (simp add: m)
next
  have m: "messages janeChat = [janeMessage]" by (simp add: janeChat_def)
  from handleSend_fallbacks [where s = janeChat and ?n1.0 = 1700000000500
      and ?t1.0 = "lit ''a''" and ?n2.0 = 1700000000501 and ?t2.0 = "lit ''b''"
      and r = "\<lparr>r_user = None, r_agent1 = None, r_agent2 = Some agent2Reply, r_threadId = None\<rparr>"
      and ?m2.0 = agent2Reply,
      THEN conjunct2, THEN conjunct2, THEN conjunct2, THEN conjunct1]
  show "messages (handleSend_done 1700000000500 (lit ''a'') 1700000000501 (lit ''b'')
      (Inr (Some \<lparr>r_user = None, r_agent1 = None, r_agent2 = Some agent2Reply, r_threadId = None\<rparr>))
      janeChat) =
     [janeMessage, agent1Fallback 1700000000500 (lit ''a''), agent2Reply]"
    by (simp add: m)
next
  have m: "messages janeChat = [janeMessage]" by (simp add: janeChat_def)
  from handleSend_fallbacks [where s = janeChat and ?n1.0 = 1700000000500
      and ?t1.0 = "lit ''a''" and ?n2.0 = 1700000000501 and ?t2.0 = "lit ''b''"
      and r = "\<lparr>r_user = None, r_agent1 = Some agent1Reply, r_agent2 = None, r_threadId = None\<rparr>"
      and ?m1.0 = agent1Reply,
      THEN conjunct2, THEN conjunct2, THEN conjunct2, THEN conjunct2, THEN conjunct1]
  show "messages (handleSend_done 1700000000500 (lit ''a'') 1700000000501 (lit ''b'')
      (Inr (Some \<lparr>r_user = None, r_agent1 = Some agent1Reply, r_agent2 = None, r_threadId = None\<rparr>))
      janeChat) =
     [janeMessage, agent1Reply, agent2Fallback 1700000000501 (lit ''b'')]"
    by (simp add: m)
qed

text \<open>
  C7. When the request of a send is rejected, \<open>error\<close> becomes the send-failure
  message and nothing else but \<open>loading\<close> changes: the user message appended at the
  start stays. The handler ends in a state, whatever the rejection, and \<open>loading\<close> is
  cleared however the request settles.
\<close>

theorem handleSend_failure:
  "handleSend_done n1 t1 n2 t2 (Inl e) s =
     s\<lparr>error := lit ''Unable to send message. Please try again.'', loading := False\<rparr> \<and>
   messages (handleSend_done n1 t1 n2 t2 (Inl e) s) = messages s \<and>
   \<not> loading (handleSend_done n1 t1 n2 t2 outcome s) \<and>
   (canSend seen \<longrightarrow>
      messages (handleSend_done n1 t1 n2 t2 (Inl e) (fst (handleSend_start now stamp seen s0))) =
        messages s0 @ [userMsg now stamp seen] \<and>
      error (handleSend_done n1 t1 n2 t2 (Inl e) (fst (handleSend_start now stamp seen s0))) =
        lit ''Unable to send message. Please try again.'' \<and>
      \<not> loading (handleSend_done n1 t1 n2 t2 (Inl e) (fst (handleSend_start now stamp seen s0))))"
proof (intro conjI impI)
  show "handleSend_done n1 t1 n2 t2 (Inl e) s =
     s\<lparr>error := lit ''Unable to send message. Please try again.'', loading := False\<rparr>"
    by (simp add: handleSend_done_def)
  show "messages (handleSend_done n1 t1 n2 t2 (Inl e) s) = messages s"
    by (simp add: handleSend_done_def)
  show "\<not> loading (handleSend_done n1 t1 n2 t2 outcome s)"
    by (simp add: handleSend_done_def Let_def split: sum.splits)
next
  assume c: "canSend seen"
  from handleSend_start_canSend [OF c, of now stamp s0]
  have m: "messages (fst (handleSend_start now stamp seen s0)) = messages s0 @ [userMsg now stamp seen]"
    by auto
  show "messages (handleSend_done n1 t1 n2 t2 (Inl e) (fst (handleSend_start now stamp seen s0))) =
        messages s0 @ [userMsg now stamp seen]"
    by (simp add: handleSend_done_def m)
  show "error (handleSend_done n1 t1 n2 t2 (Inl e) (fst (handleSend_start now stamp seen s0))) =
        lit ''Unable to send message. Please try again.''"
    by (simp add: handleSend_done_def)
  show "\<not> loading (handleSend_done n1 t1 n2 t2 (Inl e) (fst (handleSend_start now stamp seen s0)))"
    by (simp add: handleSend_done_def)
qed

theorem handleSend_failure_witness:
  "messages (handleSend_done 1 [] 2 [] (Inl (Error (lit ''Failed to send message: HTTP 502 '')))
      (fst (handleSend_start 1700000000000 (lit ''2023-11-14T22:13:20.000Z'') helloState helloState))) =
     [janeMessage, userMsg 1700000000000 (lit ''2023-11-14T22:13:20.000Z'') helloState] \<and>
   error (handleSend_done 1 [] 2 [] (Inl (Error (lit ''Failed to send message: HTTP 502 '')))
      (fst (handleSend_start 1700000000000 (lit ''2023-11-14T22:13:20.000Z'') helloState helloState))) =
     lit ''Unable to send message. Please try again.'' \<and>
   \<not> loading (handleSend_done 1 [] 2 [] (Inl (Error (lit ''Failed to send message: HTTP 502 '')))
      (fst (handleSend_start 1700000000000 (lit ''2023-11-14T22:13:20.000Z'') helloState helloState)))"
proof -
  have c: "canSend helloState" by code_simp
  have m: "messages helloState = [janeMessage]"
    by (simp add: helloState_def janeChat_def)
  from handleSend_failure [where seen = helloState and ?s0.0 = helloState and now = 1700000000000
      and stamp = "lit ''2023-11-14T22:13:20.000Z''" and ?n1.0 = 1 and ?t1.0 = "[]"
      and ?n2.0 = 2 and ?t2.0 = "[]" and e = "Error (lit ''Failed to send message: HTTP 502 '')",
      THEN conjunct2, THEN conjunct2, THEN conjunct2, rule_format, OF c]
  show ?thesis by (simp add: m)
qed

text \<open>
  C8. When the initial \<^verbatim>\<open>fetchPatients\<close> is rejected, only \<open>error\<close> changes, to
  the fetch-failure message: from the initial state the patient list stays empty and no
  patient is active. When it resolves with a non-empty list, the list is stored and its
  first patient becomes the active one; an empty or missing list selects nobody.
\<close>

theorem loadPatients_outcomes:
  "loadPatients_done (Inl e) s = s\<lparr>error := lit ''Unable to load patients.''\<rparr> \<and>
   patients (loadPatients_done (Inl e) initial_state) = [] \<and>
   activePatient (loadPatients_done (Inl e) initial_state) = None \<and>
   error (loadPatients_done (Inl e) initial_state) = lit ''Unable to load patients.'' \<and>
   loadPatients_done (Inr (Some (p # ps))) s = s\<lparr>patients := p # ps, activePatient := Some p\<rparr> \<and>
   loadPatients_done (Inr (Some [])) s = s\<lparr>patients := []\<rparr> \<and>
   loadPatients_done (Inr None) s = s\<lparr>patients := []\<rparr>"
  by (simp add: loadPatients_done_def initial_state_def)

theorem loadPatients_outcomes_witness:
  "activePatient (loadPatients_done (Inr (Some [patientJane, patientOmar])) initial_state) =
     Some patientJane \<and>
   patients (loadPatients_done (Inl TypeError) initial_state) = [] \<and>
   activePatient (loadPatients_done (Inl TypeError) initial_state) = None"
  using loadPatients_outcomes [where s = initial_state and p = patientJane
      and ps = "[patientOmar]" and e = TypeError]
  by (simp add: initial_state_def)

text \<open>
  C1, as the code has it. When the active patient has a non-empty id, the effect issues
  the history request for that id and leaves the state as it is: the messages are not
  cleared first. When the request resolves, the messages become the returned list (the
  empty list when the response has none); when it is rejected, \<open>error\<close> becomes the
  history-failure message. When there is no active patient, or it has no id, the
  messages are cleared and no request is issued.
\<close>

theorem historyEffect_behaviour:
  "(activePatient s = Some p \<and> p_id p = Some i \<and> i \<noteq> [] \<longrightarrow>
      historyEffect_start s = (s, Some (FetchPatientHistory i))) \<and>
   (activePatient s = None \<or>
    (\<exists>q. activePatient s = Some q \<and> (p_id q = None \<or> p_id q = Some [])) \<longrightarrow>
      historyEffect_start s = (s\<lparr>messages := []\<rparr>, None)) \<and>
   historyEffect_done (Inr (Some \<lparr>h_messages = Some ms\<rparr>)) s = s\<lparr>messages := ms\<rparr> \<and>
   (h = None \<or> (\<exists>h'. h = Some h' \<and> h_messages h' = None) \<longrightarrow>
      historyEffect_done (Inr h) s = s\<lparr>messages := []\<rparr>) \<and>
   error (historyEffect_done (Inl e) s) = lit ''Unable to load chat history.''"
  by (auto simp: historyEffect_start_def historyEffect_done_def)

theorem historyEffect_behaviour_witness:
  "historyEffect_start (handleSelectPatient patientOmar janeChat) =
     (handleSelectPatient patientOmar janeChat, Some (FetchPatientHistory (lit ''p2''))) \<and>
   historyEffect_start (janeChat\<lparr>activePatient := None\<rparr>) =
     (janeChat\<lparr>activePatient := None, messages := []\<rparr>, None) \<and>
   historyEffect_done (Inr None) janeChat = janeChat\<lparr>messages := []\<rparr>"
proof (intro conjI)
  have h: "activePatient (handleSelectPatient patientOmar janeChat) = Some patientOmar \<and>
      p_id patientOmar = Some (lit ''p2'') \<and> lit ''p2'' \<noteq> []"
    by (simp add: handleSelectPatient_def patientOmar_def lit_def)
  from historyEffect_behaviour [where s = "handleSelectPatient patientOmar janeChat"
      and p = patientOmar and i = "lit ''p2''", THEN conjunct1, rule_format, OF h]
  show "historyEffect_start (handleSelectPatient patientOmar janeChat) =
     (handleSelectPatient patientOmar janeChat, Some (FetchPatientHistory (lit ''p2'')))" .
next
  from historyEffect_behaviour [where s = "janeChat\<lparr>activePatient := None\<rparr>",
      THEN conjunct2, THEN conjunct1]
  show "historyEffect_start (janeChat\<lparr>activePatient := None\<rparr>) =
     (janeChat\<lparr>activePatient := None, messages := []\<rparr>, None)"
    by simp
next
  from historyEffect_behaviour [where s = janeChat and h = None,
      THEN conjunct2, THEN conjunct2, THEN conjunct2, THEN conjunct1]
  show "historyEffect_done (Inr None) janeChat = janeChat\<lparr>messages := []\<rparr>"
    by simp
qed

text \<open>
  C1, as the claim states it, fails: after the switch from the first sample patient to
  the second, the message of the first is still rendered, before and after the effect has
  issued its request, and it is still in the list after the request is rejected.
\<close>

theorem historyEffect_stale_counterexample:
  "renderedMessages (handleSelectPatient patientOmar janeChat) = [janeMessage] \<and>
   historyEffect_start (handleSelectPatient patientOmar janeChat) =
     (handleSelectPatient patientOmar janeChat, Some (FetchPatientHistory (lit ''p2''))) \<and>
   renderedMessages (fst (historyEffect_start (handleSelectPatient patientOmar janeChat))) =
     [janeMessage] \<and>
   messages (historyEffect_done (Inl (Error (lit ''Failed to fetch history for p2: HTTP 500 '')))
       (handleSelectPatient patientOmar janeChat)) = [janeMessage]"
  by (simp add: renderedMessages_def handleSelectPatient_def janeChat_def patientOmar_def
      historyEffect_start_def historyEffect_done_def initial_state_def lit_def)

end
